theory Spec2Isabelle
  imports Main "HOL-Library.Multiset"
begin

section \<open>Strings\<close>

text \<open>
  Python strings are sequences of code points. They are modelled as \<open>string\<close>, a list of
  Isabelle characters, each read as one code point in the range U+0000 to U+00FF. The three
  string primitives the analyzer relies on are written out for that range:
  \<^item> \<open>str.isspace\<close>, which both \<open>str.split()\<close> and the regular expression class
    \<open>\s\<close> use: the code points 9 to 13, 28 to 32, 133 and 160;
  \<^item> \<open>str.lower\<close>, which maps \<open>A\<close> to \<open>Z\<close> and the capital letters U+00C0 to U+00DE
    (the multiplication sign U+00D7 apart) to the code point 32 above;
  \<^item> the letters of the class \<open>[a-zA-Z]\<close>.
\<close>

definition isspace :: "char \<Rightarrow> bool" where
  "isspace c = (let n = (of_char c :: nat) in (9 \<le> n \<and> n \<le> 13) \<or> (28 \<le> n \<and> n \<le> 32) \<or> n = 133 \<or> n = 160)"

definition is_ascii_letter :: "char \<Rightarrow> bool" where
  "is_ascii_letter c = (let n = (of_char c :: nat) in (65 \<le> n \<and> n \<le> 90) \<or> (97 \<le> n \<and> n \<le> 122))"

definition lower_char :: "char \<Rightarrow> char" where
  "lower_char c = (let n = (of_char c :: nat) in
     if (65 \<le> n \<and> n \<le> 90) \<or> (192 \<le> n \<and> n \<le> 222 \<and> n \<noteq> 215) then char_of (n + 32) else c)"

definition lower :: "string \<Rightarrow> string" where
  "lower s = map lower_char s"

text \<open>\<open>sep.join(xs)\<close>.\<close>

fun join :: "string \<Rightarrow> string list \<Rightarrow> string" where
  "join sep [] = []"
| "join sep [x] = x"
| "join sep (x # y # ys) = x @ sep @ join sep (y # ys)"

text \<open>
  \<open>s.split()\<close> with no argument: the maximal runs of characters that are not whitespace,
  in order. \<open>split_from cur s\<close> scans \<open>s\<close> with the run \<open>cur\<close> already read.
\<close>

fun split_from :: "string \<Rightarrow> string \<Rightarrow> string list" where
  "split_from cur [] = (if cur = [] then [] else [cur])"
| "split_from cur (c # cs) =
     (if isspace c then (if cur = [] then split_from [] cs else cur # split_from [] cs)
      else split_from (cur @ [c]) cs)"

definition split :: "string \<Rightarrow> string list" where
  "split s = split_from [] s"

text \<open>\<open>s.strip()\<close>: leading and trailing whitespace removed.\<close>

definition strip :: "string \<Rightarrow> string" where
  "strip s = rev (dropWhile isspace (rev (dropWhile isspace s)))"

section \<open>analyzer.py\<close>

definition STOP_WORDS :: "string list" where
  "STOP_WORDS =
    [''the'', ''a'', ''an'', ''and'', ''or'', ''but'', ''in'', ''on'', ''at'', ''to'', ''for'',
     ''of'', ''with'', ''by'', ''from'', ''is'', ''it'', ''its'', ''as'', ''are'', ''was'',
     ''were'', ''be'', ''been'', ''has'', ''have'', ''had'', ''do'', ''does'', ''did'',
     ''will'', ''would'', ''could'', ''should'', ''may'', ''might'', ''shall'', ''can'',
     ''this'', ''that'', ''these'', ''those'', ''not'', ''no'', ''nor'', ''so'', ''if'',
     ''than'', ''too'', ''very'', ''just'', ''about'', ''up'', ''out'', ''into'', ''over'',
     ''after'', ''before'', ''between'', ''under'', ''above'', ''such'', ''each'',
     ''which'', ''who'', ''whom'', ''what'', ''when'', ''where'', ''why'', ''how'',
     ''all'', ''both'', ''few'', ''more'', ''most'', ''other'', ''some'', ''any'',
     ''he'', ''she'', ''they'', ''we'', ''you'', ''i'', ''me'', ''him'', ''her'', ''us'',
     ''them'', ''my'', ''your'', ''his'', ''our'', ''their'']"

text \<open>
  \<open>re.sub(r"[^a-zA-Z\s]", "", all_text)\<close>: every character that is neither a basic Latin
  letter nor whitespace is deleted.
\<close>

definition clean :: "string \<Rightarrow> string" where
  "clean s = filter (\<lambda>c. is_ascii_letter c \<or> isspace c) s"

text \<open>
  \<open>Counter(words)\<close>: a dictionary in insertion order, so an association list with one
  entry per distinct word, in the order of first occurrence. \<open>counter_add\<close> is the update
  \<open>counts[w] += 1\<close> that the constructor does for each element.
\<close>

fun counter_add :: "(string \<times> nat) list \<Rightarrow> string \<Rightarrow> (string \<times> nat) list" where
  "counter_add [] w = [(w, 1)]"
| "counter_add ((k, n) # kvs) w =
     (if k = w then (k, n + 1) # kvs else (k, n) # counter_add kvs w)"

definition Counter :: "string list \<Rightarrow> (string \<times> nat) list" where
  "Counter ws = foldl counter_add [] ws"

definition meaningful_words :: "string list \<Rightarrow> string list" where
  "meaningful_words headers =
     filter (\<lambda>w. w \<notin> set STOP_WORDS \<and> length w > 1) (split (clean (lower (join '' '' headers))))"

definition find_repeated_words :: "string list \<Rightarrow> (string \<times> nat) list" where
  "find_repeated_words headers =
     (let counts = Counter (meaningful_words headers)
      in filter (\<lambda>(word, cnt). cnt > 2) counts)"

text \<open>
  The analyzer in the words of its specification: lowercase the joined headers, delete
  every character outside the basic Latin letters and whitespace, split on whitespace,
  discard the stop-words and the tokens of length 1, and count \<open>w\<close> among what remains.
\<close>

definition spec_tokens :: "string list \<Rightarrow> string list" where
  "spec_tokens headers =
     filter (\<lambda>t. t \<notin> set STOP_WORDS \<and> length t \<noteq> 1)
       (split (filter (\<lambda>c. is_ascii_letter c \<or> isspace c) (map lower_char (join '' '' headers))))"

definition spec_count :: "string list \<Rightarrow> string \<Rightarrow> nat" where
  "spec_count headers w = count_list (spec_tokens headers) w"

section \<open>Exceptions and formatting\<close>

text \<open>
  A raised instance of Python's \<open>Exception\<close>: its class name and the text \<open>str(e)\<close>. A call
  that may raise returns \<open>exn + 'a\<close>, with \<open>Inl\<close> for the exception. Every call into a
  collaborator (the browser driver, the HTTP library, the file system) is taken to return:
  its outcome, a value or an exception, is a field of the records below. Sleeping is left
  out. Printing is left out where the standard output is taken to accept every line; the
  translator is also modelled with a standard output that may raise (\<open>translate_titles_io\<close>).
\<close>

datatype exn = Exn (exn_class: string) (exn_str: string)

text \<open>\<open>str(n)\<close> for an integer, in decimal.\<close>

function str_nat :: "nat \<Rightarrow> string" where
  "str_nat n = (if n < 10 then [char_of (48 + n)] else str_nat (n div 10) @ [char_of (48 + n mod 10)])"
  by pat_completeness auto
termination
  by (relation "measure (\<lambda>n. n)") auto

declare str_nat.simps [simp del]

definition str_int :: "int \<Rightarrow> string" where
  "str_int i = (if i < 0 then CHR ''-'' # str_nat (nat (- i)) else str_nat (nat i))"

text \<open>\<open>sub in s\<close> for strings.\<close>

fun contains :: "string \<Rightarrow> string \<Rightarrow> bool" where
  "contains sub [] = (sub = [])"
| "contains sub (c # cs) = (take (length sub) (c # cs) = sub \<or> contains sub cs)"

text \<open>\<open>xs[:n]\<close>: a negative \<open>n\<close> counts from the end.\<close>

definition slice_to :: "'a list \<Rightarrow> int \<Rightarrow> 'a list" where
  "slice_to xs n = (if 0 \<le> n then take (nat n) xs else take (length xs - nat (- n)) xs)"

text \<open>The truth value of \<open>get_attribute\<close>'s result: \<open>None\<close> and the empty string are false.\<close>

definition truthy :: "string option \<Rightarrow> bool" where
  "truthy a = (case a of None \<Rightarrow> False | Some v \<Rightarrow> v \<noteq> [])"

section \<open>translator.py\<close>

text \<open>
  A value decoded from JSON is a string or a value of another type (\<open>None\<close>, a number, a
  list, a dictionary), kept with the name of its type and with its text \<open>str(v)\<close>.
\<close>

datatype pyval = Str string | Other string string

definition py_str :: "pyval \<Rightarrow> string" where
  "py_str v = (case v of Str s \<Rightarrow> s | Other ty txt \<Rightarrow> txt)"

text \<open>
  The body of one POST request, and what came of it: \<open>requests.post\<close> raised (network
  issue, timeout), \<open>raise_for_status\<close> raised an \<open>HTTPError\<close>, decoding the body or reading
  it as a dictionary raised, or the decoded dictionary. The endpoint is a function of the
  position of the request in the run and of its body.
\<close>

record request_body =
  req_from :: string
  req_to :: string
  req_text :: string

datatype response =
    PostRaised exn
  | HTTPError exn
  | JsonRaised exn
  | JsonObject "string \<rightharpoonup> pyval"

text \<open>
  The translator on a standard output that takes every line. No \<open>print\<close> raises there, so
  one pass of the loop body appends one value to \<open>translated\<close>: \<open>translate_one\<close> is that
  value. The translator with its printing follows below as \<open>translate_titles_io\<close>.
\<close>

definition translate_one :: "(nat \<Rightarrow> request_body \<Rightarrow> response) \<Rightarrow> string \<Rightarrow> string \<Rightarrow> nat \<Rightarrow> string \<Rightarrow> pyval" where
  "translate_one post src dest i title =
     (case post i \<lparr>req_from = src, req_to = dest, req_text = title\<rparr> of
        PostRaised e \<Rightarrow> Str title
      | HTTPError e \<Rightarrow> Str title
      | JsonRaised e \<Rightarrow> Str title
      | JsonObject result \<Rightarrow> (case result ''trans'' of None \<Rightarrow> Str title | Some eng_title \<Rightarrow> eng_title))"

fun translate_loop :: "(nat \<Rightarrow> request_body \<Rightarrow> response) \<Rightarrow> string \<Rightarrow> string \<Rightarrow> nat \<Rightarrow> string list \<Rightarrow> pyval list \<Rightarrow> pyval list" where
  "translate_loop post src dest i [] translated = translated"
| "translate_loop post src dest i (title # titles) translated =
     translate_loop post src dest (Suc i) titles (translated @ [translate_one post src dest i title])"

definition translate_titles :: "string \<Rightarrow> (nat \<Rightarrow> request_body \<Rightarrow> response) \<Rightarrow> string list \<Rightarrow> string \<Rightarrow> string \<Rightarrow> pyval list" where
  "translate_titles RAPIDAPI_KEY post titles src dest =
     (if RAPIDAPI_KEY = [] then map Str titles else translate_loop post src dest 0 titles [])"

text \<open>
  The translator with its printing. The standard output answers \<open>print(line)\<close> with
  nothing or with an exception (a stream that cannot encode the line, a closed pipe).

  \<open>handler\<close> is the body of the two \<open>except\<close> clauses, chosen by the class of the
  exception: the message is printed, then the title appended. An exception of that
  \<open>print\<close> leaves the function.
\<close>

definition handler :: "(string \<Rightarrow> exn + unit) \<Rightarrow> string \<Rightarrow> exn \<Rightarrow> pyval list \<Rightarrow> exn + pyval list" where
  "handler stdout title e translated =
     (case stdout (if exn_class e = ''HTTPError''
                   then ''   [ERROR] HTTP error for '' @ [CHR 0x27] @ title @ [CHR 0x27] @ '': '' @ exn_str e
                   else ''   [ERROR] Failed to translate '' @ [CHR 0x27] @ title @ [CHR 0x27] @ '': '' @ exn_str e) of
        Inl raised \<Rightarrow> Inl raised
      | Inr u \<Rightarrow> Inr (translated @ [Str title]))"

text \<open>
  One pass of the loop body on the list \<open>translated\<close>: the \<open>try\<close> block appends
  \<open>eng_title\<close> and prints two lines after that, so an exception of either \<open>print\<close> reaches
  the handler with the value already appended.
\<close>

definition translate_one_io :: "(string \<Rightarrow> exn + unit) \<Rightarrow> (nat \<Rightarrow> request_body \<Rightarrow> response) \<Rightarrow> string \<Rightarrow> string \<Rightarrow> nat \<Rightarrow> string \<Rightarrow> pyval list \<Rightarrow> exn + pyval list" where
  "translate_one_io stdout post src dest i title translated =
     (case post i \<lparr>req_from = src, req_to = dest, req_text = title\<rparr> of
        PostRaised e \<Rightarrow> handler stdout title e translated
      | HTTPError e \<Rightarrow> handler stdout title e translated
      | JsonRaised e \<Rightarrow> handler stdout title e translated
      | JsonObject result \<Rightarrow>
          (let eng_title = (case result ''trans'' of None \<Rightarrow> Str title | Some v \<Rightarrow> v);
               appended = translated @ [eng_title]
           in (case stdout (''   ['' @ str_nat (i + 1) @ ''] '' @ title) of
                 Inl e \<Rightarrow> handler stdout title e appended
               | Inr u \<Rightarrow>
                   (case stdout (''       -> '' @ py_str eng_title) of
                      Inl e \<Rightarrow> handler stdout title e appended
                    | Inr u \<Rightarrow> Inr appended))))"

fun translate_loop_io :: "(string \<Rightarrow> exn + unit) \<Rightarrow> (nat \<Rightarrow> request_body \<Rightarrow> response) \<Rightarrow> string \<Rightarrow> string \<Rightarrow> nat \<Rightarrow> string list \<Rightarrow> pyval list \<Rightarrow> exn + pyval list" where
  "translate_loop_io stdout post src dest i [] translated = Inr translated"
| "translate_loop_io stdout post src dest i (title # titles) translated =
     (case translate_one_io stdout post src dest i title translated of
        Inl e \<Rightarrow> Inl e
      | Inr appended \<Rightarrow> translate_loop_io stdout post src dest (Suc i) titles appended)"

definition translate_titles_io :: "(string \<Rightarrow> exn + unit) \<Rightarrow> string \<Rightarrow> (nat \<Rightarrow> request_body \<Rightarrow> response) \<Rightarrow> string list \<Rightarrow> string \<Rightarrow> string \<Rightarrow> exn + pyval list" where
  "translate_titles_io stdout RAPIDAPI_KEY post titles src dest =
     (if RAPIDAPI_KEY = [] then
        (case stdout ''[ERROR] RAPIDAPI_KEY not set in .env file!'' of
           Inl e \<Rightarrow> Inl e
         | Inr u \<Rightarrow> Inr (map Str titles))
      else translate_loop_io stdout post src dest 0 titles [])"

text \<open>
  \<open>" ".join(headers)\<close> wants strings: the items when all of them are, and else the
  \<open>TypeError\<close> it raises at the first item that is not, \<open>i\<close> being the position of the head
  of the list.
\<close>

fun str_items :: "nat \<Rightarrow> pyval list \<Rightarrow> exn + string list" where
  "str_items i [] = Inr []"
| "str_items i (Str s # vs) =
     (case str_items (Suc i) vs of Inl e \<Rightarrow> Inl e | Inr rest \<Rightarrow> Inr (s # rest))"
| "str_items i (Other ty txt # vs) =
     Inl (Exn ''TypeError''
       (''sequence item '' @ str_nat i @ '': expected str instance, '' @ ty @ '' found''))"

section \<open>scraper.py\<close>

subsection \<open>The listing page\<close>

text \<open>
  What the driver answers on the Opinion listing, one field per call of the source:
  \<^item> \<open>get_listing\<close>: \<open>driver.get(url)\<close>;
  \<^item> \<open>cookie_button\<close>: the wait for the consent button, then its \<open>click()\<close>;
  \<^item> \<open>html_lang\<close>: \<open>find_element(By.TAG_NAME, "html")\<close>, then \<open>get_attribute("lang")\<close>;
  \<^item> \<open>article_elems\<close>: \<open>find_elements("article")\<close>; for each element
    \<open>find_element("h2 a")\<close>, then \<open>get_attribute("href")\<close>;
  \<^item> \<open>h2_links\<close>: \<open>find_elements("h2 a[href*='/opinion/']")\<close>; for each element
    \<open>get_attribute("href")\<close>.
\<close>

record listing_page =
  get_listing :: "exn + unit"
  cookie_button :: "exn + (exn + unit)"
  html_lang :: "exn + (exn + string option)"
  article_elems :: "exn + (exn + (exn + string option)) list"
  h2_links :: "exn + (exn + string option) list"

text \<open>\<open>accept_cookies\<close>: the whole body stands in a \<open>try\<close> whose handler passes.\<close>

definition accept_cookies :: "listing_page \<Rightarrow> unit" where
  "accept_cookies page =
     (case cookie_button page of
        Inl e \<Rightarrow> ()
      | Inr btn \<Rightarrow> (case btn of Inl e \<Rightarrow> () | Inr u \<Rightarrow> ()))"

definition check_language :: "listing_page \<Rightarrow> exn + bool" where
  "check_language page =
     (case html_lang page of
        Inl e \<Rightarrow> Inl e
      | Inr html \<Rightarrow>
          (case html of
             Inl e \<Rightarrow> Inl e
           | Inr attr \<Rightarrow>
               (let lang = (if truthy attr then (case attr of None \<Rightarrow> [] | Some v \<Rightarrow> v) else [])
                in Inr (take 2 lang = ''es''))))"

text \<open>
  The primary loop over the \<open>article\<close> elements. An exception inside the loop body is
  caught there and the loop continues; the loop breaks once \<open>num_articles\<close> links are held.
\<close>

fun primary_loop :: "int \<Rightarrow> (exn + (exn + string option)) list \<Rightarrow> string list \<Rightarrow> string list" where
  "primary_loop num_articles [] links = links"
| "primary_loop num_articles (art # arts) links =
     (case art of
        Inl e \<Rightarrow> primary_loop num_articles arts links
      | Inr a_tag \<Rightarrow>
          (case a_tag of
             Inl e \<Rightarrow> primary_loop num_articles arts links
           | Inr href \<Rightarrow>
               (case href of
                  None \<Rightarrow> primary_loop num_articles arts links
                | Some h \<Rightarrow>
                    if h \<noteq> [] \<and> h \<notin> set links then
                      (if int (length (links @ [h])) \<ge> num_articles then links @ [h]
                       else primary_loop num_articles arts (links @ [h]))
                    else primary_loop num_articles arts links)))"

text \<open>
  The fallback loop. Its \<open>try\<close> encloses the whole loop, so an exception ends the loop and
  the links appended so far stay.
\<close>

fun fallback_loop :: "int \<Rightarrow> (exn + string option) list \<Rightarrow> string list \<Rightarrow> string list" where
  "fallback_loop num_articles [] links = links"
| "fallback_loop num_articles (a # as) links =
     (case a of
        Inl e \<Rightarrow> links
      | Inr href \<Rightarrow>
          (case href of
             None \<Rightarrow> fallback_loop num_articles as links
           | Some h \<Rightarrow>
               if h \<noteq> [] \<and> h \<notin> set links then
                 (if int (length (links @ [h])) \<ge> num_articles then links @ [h]
                  else fallback_loop num_articles as (links @ [h]))
               else fallback_loop num_articles as links))"

text \<open>The list \<open>links\<close> after the primary block, and after the fallback block.\<close>

definition primary_links :: "listing_page \<Rightarrow> int \<Rightarrow> string list" where
  "primary_links page num_articles =
     (case article_elems page of
        Inl e \<Rightarrow> []
      | Inr articles \<Rightarrow> primary_loop num_articles articles [])"

definition fallback_links :: "listing_page \<Rightarrow> int \<Rightarrow> string list \<Rightarrow> string list" where
  "fallback_links page num_articles links =
     (if int (length links) < num_articles then
        (case h2_links page of
           Inl e \<Rightarrow> links
         | Inr all_h2_links \<Rightarrow> fallback_loop num_articles all_h2_links links)
      else links)"

definition get_article_links :: "listing_page \<Rightarrow> int \<Rightarrow> exn + string list" where
  "get_article_links page num_articles =
     (case get_listing page of
        Inl e \<Rightarrow> Inl e
      | Inr u \<Rightarrow>
          (let cookies = accept_cookies page
           in (case check_language page of
                 Inl e \<Rightarrow> Inl e
               | Inr spanish \<Rightarrow>
                   (let links = primary_links page num_articles;
                        links = fallback_links page num_articles links
                    in Inr (slice_to links num_articles)))))"

subsection \<open>The image fetcher\<close>

text \<open>
  What the file system and the network answer while one image is fetched:
  \<^item> \<open>makedirs\<close>: \<open>os.makedirs(IMAGE_DIR, exist_ok=True)\<close> in \<open>ensure_image_dir\<close>;
  \<^item> \<open>http_get\<close>: \<open>requests.get(img_url, timeout=15, stream=True)\<close>, and for the response
    \<open>raise_for_status()\<close> (it raises an \<open>HTTPError\<close> on an error status), the header
    \<open>Content-Type\<close> when there is one, and opening the file at a path and writing the
    streamed chunks to it.
\<close>

record http_response =
  raise_for_status :: "exn + unit"
  content_type :: "string option"
  save_body :: "string \<Rightarrow> exn + unit"

record image_fetch =
  makedirs :: "exn + unit"
  http_get :: "exn + http_response"

text \<open>\<open>os.path.join(IMAGE_DIR, filename)\<close> on a POSIX system, for a relative file name.\<close>

definition path_join :: "string \<Rightarrow> string \<Rightarrow> string" where
  "path_join dir filename =
     (if dir = [] \<or> last dir = CHR ''/'' then dir @ filename else dir @ ''/'' @ filename)"

definition ensure_image_dir :: "image_fetch \<Rightarrow> exn + unit" where
  "ensure_image_dir io = makedirs io"

definition download_image :: "string \<Rightarrow> image_fetch \<Rightarrow> int \<Rightarrow> exn + string option" where
  "download_image IMAGE_DIR io idx =
     (case ensure_image_dir io of
        Inl e \<Rightarrow> Inl e
      | Inr u \<Rightarrow>
          (case http_get io of
             Inl e \<Rightarrow> Inr None
           | Inr resp \<Rightarrow>
               (case raise_for_status resp of
                  Inl e \<Rightarrow> Inr None
                | Inr u \<Rightarrow>
                    (let ctype = (case content_type resp of None \<Rightarrow> [] | Some v \<Rightarrow> v);
                         ext = (if contains ''png'' ctype then ''png''
                                else if contains ''webp'' ctype then ''webp''
                                else ''jpg'');
                         filename = ''article_'' @ str_int (idx + 1) @ ''_cover.'' @ ext;
                         filepath = path_join IMAGE_DIR filename
                     in (case save_body resp filepath of
                           Inl e \<Rightarrow> Inr None
                         | Inr u \<Rightarrow> Inr (Some filepath))))))"

subsection \<open>One article\<close>

text \<open>
  What the driver answers on an article page:
  \<^item> \<open>get_page\<close>: \<open>driver.get(url)\<close>;
  \<^item> \<open>header_h1\<close>: the wait for \<open>article header h1\<close>, then the element's \<open>text\<close>;
    \<open>h1_a_t\<close> and \<open>any_h1\<close>: \<open>find_element\<close> for \<open>h1.a_t\<close> and for \<open>h1\<close>, then \<open>text\<close>;
  \<^item> \<open>body_paragraphs\<close>: \<open>find_elements\<close> for the content selectors, \<open>article_paragraphs\<close>:
    \<open>find_elements("article p")\<close>; each element with the outcome of its \<open>text\<close>;
  \<^item> \<open>cover_img\<close>: \<open>find_element\<close> for the figure image, then \<open>get_attribute("src")\<close>;
  \<^item> \<open>fetch\<close>: the file system and network during the download of an image URL.
\<close>

record article_page =
  get_page :: "exn + unit"
  header_h1 :: "exn + (exn + string)"
  h1_a_t :: "exn + (exn + string)"
  any_h1 :: "exn + (exn + string)"
  body_paragraphs :: "exn + (exn + string) list"
  article_paragraphs :: "exn + (exn + string) list"
  cover_img :: "exn + (exn + string option)"
  fetch :: "string \<Rightarrow> image_fetch"

record article =
  url :: string
  title :: string
  content :: string
  image_path :: "string option"

text \<open>
  One step of the title chain, the body of one \<open>try\<close>: the element is looked up and its
  text read and stripped; \<open>None\<close> when either raised.
\<close>

definition title_strategy :: "exn + (exn + string) \<Rightarrow> string option" where
  "title_strategy lookup =
     (case lookup of
        Inl e \<Rightarrow> None
      | Inr h1 \<Rightarrow> (case h1 of Inl e \<Rightarrow> None | Inr txt \<Rightarrow> Some (strip txt)))"

definition extract_title :: "article_page \<Rightarrow> string" where
  "extract_title page =
     (case title_strategy (header_h1 page) of
        Some t \<Rightarrow> t
      | None \<Rightarrow>
          (case title_strategy (h1_a_t page) of
             Some t \<Rightarrow> t
           | None \<Rightarrow>
               (case title_strategy (any_h1 page) of
                  Some t \<Rightarrow> t
                | None \<Rightarrow> ''(could not extract title)'')))"

text \<open>The texts of the paragraphs in order, up to the first \<open>text\<close> that raises.\<close>

fun paragraph_texts :: "(exn + string) list \<Rightarrow> exn + string list" where
  "paragraph_texts [] = Inr []"
| "paragraph_texts (p # ps) =
     (case p of
        Inl e \<Rightarrow> Inl e
      | Inr txt \<Rightarrow>
          (case paragraph_texts ps of
             Inl e \<Rightarrow> Inl e
           | Inr rest \<Rightarrow> Inr (if strip txt \<noteq> [] then strip txt # rest else rest)))"

definition extract_content :: "article_page \<Rightarrow> string" where
  "extract_content page =
     (case body_paragraphs page of
        Inl e \<Rightarrow> ''(could not extract content)''
      | Inr paragraphs \<Rightarrow>
          (case (if paragraphs = [] then article_paragraphs page else Inr paragraphs) of
             Inl e \<Rightarrow> ''(could not extract content)''
           | Inr paragraphs \<Rightarrow>
               (case paragraph_texts paragraphs of
                  Inl e \<Rightarrow> ''(could not extract content)''
                | Inr text_parts \<Rightarrow> join [CHR 0x0A] text_parts)))"

definition extract_image :: "string \<Rightarrow> article_page \<Rightarrow> int \<Rightarrow> string option" where
  "extract_image IMAGE_DIR page idx =
     (case cover_img page of
        Inl e \<Rightarrow> None
      | Inr img \<Rightarrow>
          (case img of
             Inl e \<Rightarrow> None
           | Inr img_url \<Rightarrow>
               (case img_url of
                  None \<Rightarrow> None
                | Some u \<Rightarrow>
                    if u \<noteq> [] then
                      (case download_image IMAGE_DIR (fetch page u) idx of
                         Inl e \<Rightarrow> None
                       | Inr path \<Rightarrow> path)
                    else None)))"

definition scrape_single_article :: "string \<Rightarrow> article_page \<Rightarrow> string \<Rightarrow> int \<Rightarrow> exn + article" where
  "scrape_single_article IMAGE_DIR page u idx =
     (case get_page page of
        Inl e \<Rightarrow> Inl e
      | Inr un \<Rightarrow>
          Inr \<lparr>url = u,
               title = extract_title page,
               content = extract_content page,
               image_path = extract_image IMAGE_DIR page idx\<rparr>)"

subsection \<open>All articles\<close>

text \<open>
  The driver handle, as the answers of the browser it is bound to: the listing page, the
  page shown once the driver is sent to the link \<open>u\<close> at position \<open>i\<close> of the list
  (\<open>pages i u\<close>), and the outcomes of \<open>execute_script\<close> and of \<open>quit\<close>.
\<close>

record driver =
  listing :: listing_page
  pages :: "nat \<Rightarrow> string \<Rightarrow> article_page"
  execute_script :: "string \<Rightarrow> exn + unit"
  quit :: "exn + unit"

text \<open>
  The loop of \<open>scrape_articles\<close> over the enumerated links. An exception of
  \<open>scrape_single_article\<close> leaves the loop and the function.
\<close>

fun scrape_loop :: "string \<Rightarrow> driver \<Rightarrow> nat \<Rightarrow> string list \<Rightarrow> article list \<Rightarrow> exn + article list" where
  "scrape_loop IMAGE_DIR drv i [] results = Inr results"
| "scrape_loop IMAGE_DIR drv i (u # us) results =
     (case scrape_single_article IMAGE_DIR (pages drv i u) u (int i) of
        Inl e \<Rightarrow> Inl e
      | Inr art \<Rightarrow> scrape_loop IMAGE_DIR drv (Suc i) us (results @ [art]))"

definition scrape_articles :: "string \<Rightarrow> driver \<Rightarrow> int \<Rightarrow> exn + article list" where
  "scrape_articles IMAGE_DIR drv num =
     (case get_article_links (listing drv) num of
        Inl e \<Rightarrow> Inl e
      | Inr article_urls \<Rightarrow> scrape_loop IMAGE_DIR drv 0 article_urls [])"

section \<open>browserstack\_runner.py\<close>

text \<open>
  A target descriptor, and the settings read from the environment when the modules are
  loaded: the BrowserStack credentials, the translation key and the image directory.
\<close>

record browser_config =
  name :: string
  is_mobile :: bool
  bstack_options :: "string \<rightharpoonup> string"

record settings =
  bs_user :: string
  bs_key :: string
  rapidapi_key :: string
  image_dir :: string

definition BROWSERS :: "browser_config list" where
  "BROWSERS =
    [\<lparr>name = ''Chrome on Windows 11'', is_mobile = False,
      bstack_options = [''os'' \<mapsto> ''Windows'', ''osVersion'' \<mapsto> ''11'',
        ''browserName'' \<mapsto> ''Chrome'', ''browserVersion'' \<mapsto> ''latest'',
        ''sessionName'' \<mapsto> ''ElPais_Chrome_Win11'', ''buildName'' \<mapsto> ''ElPais Opinion Scraper'']\<rparr>,
     \<lparr>name = ''Safari on macOS Ventura'', is_mobile = False,
      bstack_options = [''os'' \<mapsto> ''OS X'', ''osVersion'' \<mapsto> ''Ventura'',
        ''browserName'' \<mapsto> ''Safari'', ''browserVersion'' \<mapsto> ''latest'',
        ''sessionName'' \<mapsto> ''ElPais_Safari_macOS'', ''buildName'' \<mapsto> ''ElPais Opinion Scraper'']\<rparr>,
     \<lparr>name = ''Firefox on Windows 10'', is_mobile = False,
      bstack_options = [''os'' \<mapsto> ''Windows'', ''osVersion'' \<mapsto> ''10'',
        ''browserName'' \<mapsto> ''Firefox'', ''browserVersion'' \<mapsto> ''latest'',
        ''sessionName'' \<mapsto> ''ElPais_Firefox_Win10'', ''buildName'' \<mapsto> ''ElPais Opinion Scraper'']\<rparr>,
     \<lparr>name = ''Samsung Galaxy S23 (Chrome)'', is_mobile = True,
      bstack_options = [''deviceName'' \<mapsto> ''Samsung Galaxy S23'', ''osVersion'' \<mapsto> ''13.0'',
        ''browserName'' \<mapsto> ''Chrome'',
        ''sessionName'' \<mapsto> ''ElPais_Chrome_GalaxyS23'', ''buildName'' \<mapsto> ''ElPais Opinion Scraper'']\<rparr>,
     \<lparr>name = ''iPhone 15 (Safari)'', is_mobile = True,
      bstack_options = [''deviceName'' \<mapsto> ''iPhone 15'', ''osVersion'' \<mapsto> ''17'',
        ''browserName'' \<mapsto> ''Safari'',
        ''sessionName'' \<mapsto> ''ElPais_Safari_iPhone15'', ''buildName'' \<mapsto> ''ElPais Opinion Scraper'']\<rparr>]"

text \<open>\<open>d.get(k, default)\<close>, and the \<open>KeyError\<close> that \<open>d[k]\<close> raises on a missing key.\<close>

definition dict_get :: "(string \<rightharpoonup> string) \<Rightarrow> string \<Rightarrow> string \<Rightarrow> string" where
  "dict_get d k dflt = (case d k of None \<Rightarrow> dflt | Some v \<Rightarrow> v)"

definition key_error :: "string \<Rightarrow> exn" where
  "key_error k = Exn ''KeyError'' ([CHR 0x27] @ k @ [CHR 0x27])"

subsection \<open>The session factory\<close>

datatype options_class = SafariOptions | FirefoxOptions | ChromeOptions

text \<open>
  \<open>create_driver\<close> up to \<open>options.set_capability("bstack:options", bstack_caps)\<close>: the
  options class chosen and the dictionary \<open>bstack_caps\<close>, the capability payload the
  function builds. What the options object of the driver library adds by itself is not
  part of the source.
\<close>

definition create_driver_options :: "settings \<Rightarrow> browser_config \<Rightarrow> exn + options_class \<times> (string \<rightharpoonup> string)" where
  "create_driver_options env browser_config =
     (let opts = bstack_options browser_config;
          browser_name = dict_get opts ''browserName'' ''Chrome'';
          options = (if browser_name = ''Safari'' then SafariOptions
                     else if browser_name = ''Firefox'' then FirefoxOptions
                     else ChromeOptions);
          bstack_caps = [''userName'' \<mapsto> bs_user env,
                         ''accessKey'' \<mapsto> bs_key env,
                         ''sessionName'' \<mapsto> dict_get opts ''sessionName'' [],
                         ''buildName'' \<mapsto> dict_get opts ''buildName'' []]
      in if is_mobile browser_config then
           (case opts ''deviceName'' of
              None \<Rightarrow> Inl (key_error ''deviceName'')
            | Some device \<Rightarrow>
                (case opts ''osVersion'' of
                   None \<Rightarrow> Inl (key_error ''osVersion'')
                 | Some version \<Rightarrow>
                     Inr (options, bstack_caps(''deviceName'' \<mapsto> device, ''osVersion'' \<mapsto> version))))
         else
           Inr (options, bstack_caps(''os'' \<mapsto> dict_get opts ''os'' [],
                  ''osVersion'' \<mapsto> dict_get opts ''osVersion'' [],
                  ''browserVersion'' \<mapsto> dict_get opts ''browserVersion'' ''latest'')))"

text \<open>
  The world of one worker: the hub, which answers \<open>webdriver.Remote\<close> for a payload with a
  driver handle or an exception, and the translation endpoint.
\<close>

record world =
  remote :: "options_class \<times> (string \<rightharpoonup> string) \<Rightarrow> exn + driver"
  post :: "nat \<Rightarrow> request_body \<Rightarrow> response"

definition create_driver :: "settings \<Rightarrow> world \<Rightarrow> browser_config \<Rightarrow> exn + driver" where
  "create_driver env w browser_config =
     (case create_driver_options env browser_config of
        Inl e \<Rightarrow> Inl e
      | Inr options \<Rightarrow> remote w options)"

subsection \<open>The target runner\<close>

record run_result =
  browser :: string
  status :: string
  reason :: string

text \<open>
  The calls \<open>run_single_browser\<close> makes, in the order it makes them; the function is
  modelled with this trace beside its outcome.
\<close>

datatype event =
    Create_driver
  | Scrape_articles
  | Translate_titles "string list"
  | Find_repeated_words "pyval list"
  | Execute_script string
  | Quit

text \<open>\<open>reason.replace('"', '\\"')\<close>, and the script sent to the session.\<close>

definition escape_quotes :: "string \<Rightarrow> string" where
  "escape_quotes s = concat (map (\<lambda>c. if c = CHR 0x22 then [CHR 0x5C, CHR 0x22] else [c]) s)"

definition status_script :: "string \<Rightarrow> string \<Rightarrow> string" where
  "status_script st rsn =
     ''browserstack_executor: {\"action\": \"setSessionStatus\", '' @
     ''\"arguments\": {\"status\": \"'' @ st @ ''\", '' @
     ''\"reason\": \"'' @ escape_quotes rsn @ ''\"}}''"

text \<open>
  The \<open>try\<close> block with its handler: the driver when one was created, the status and the
  reason it leaves, and the calls made. \<open>find_repeated_words\<close> raises a \<open>TypeError\<close> when a
  translated title is not a string; the handler catches it like every other exception.
\<close>

definition run_pipeline :: "settings \<Rightarrow> world \<Rightarrow> browser_config \<Rightarrow> driver option \<times> string \<times> string \<times> event list" where
  "run_pipeline env w browser_config =
     (case create_driver env w browser_config of
        Inl e \<Rightarrow> (None, ''failed'', exn_str e, [Create_driver])
      | Inr drv \<Rightarrow>
          (case scrape_articles (image_dir env) drv 5 of
             Inl e \<Rightarrow> (Some drv, ''failed'', exn_str e, [Create_driver, Scrape_articles])
           | Inr articles \<Rightarrow>
               if articles \<noteq> [] then
                 (let titles_spanish = map title articles;
                      titles_english = translate_titles (rapidapi_key env) (post w) titles_spanish ''es'' ''en'';
                      calls = [Create_driver, Scrape_articles, Translate_titles titles_spanish,
                               Find_repeated_words titles_english]
                  in (case str_items 0 titles_english of
                        Inl e \<Rightarrow> (Some drv, ''failed'', exn_str e, calls)
                      | Inr headers \<Rightarrow>
                          (let repeated = find_repeated_words headers
                           in (Some drv, ''passed'',
                               ''Scraped '' @ str_nat (length articles) @ '' articles successfully'',
                               calls))))
               else (Some drv, ''failed'', ''Could not scrape any articles'',
                     [Create_driver, Scrape_articles])))"

text \<open>
  \<open>run_single_browser\<close>: the \<open>finally\<close> block after \<open>run_pipeline\<close>. The outcome of
  \<open>execute_script\<close> is caught and dropped; an exception of \<open>quit\<close> leaves the function.
\<close>

definition run_single_browser :: "settings \<Rightarrow> world \<Rightarrow> browser_config \<Rightarrow> event list \<times> (exn + run_result)" where
  "run_single_browser env w browser_config =
     (case run_pipeline env w browser_config of
        (d, st, rsn, calls) \<Rightarrow>
          (case d of
             None \<Rightarrow> (calls, Inr \<lparr>browser = name browser_config, status = st, reason = rsn\<rparr>)
           | Some drv \<Rightarrow>
               (case execute_script drv (status_script st rsn) of
                  notified \<Rightarrow>
                    (case quit drv of
                       Inl e \<Rightarrow> (calls @ [Execute_script (status_script st rsn), Quit], Inl e)
                     | Inr u \<Rightarrow>
                         (calls @ [Execute_script (status_script st rsn), Quit],
                          Inr \<lparr>browser = name browser_config, status = st, reason = rsn\<rparr>)))))"

subsection \<open>The orchestrator\<close>



section \<open>Sample pages, drivers and endpoints\<close>

text \<open>
  A listing whose primary selector finds the link \<open>a\<close> twice and the link \<open>b\<close>, with one
  \<open>article\<close> element lacking a heading link, and whose broader selector finds \<open>a\<close> again, a
  new link \<open>c\<close> and an anchor with no \<open>href\<close>.
\<close>

definition sample_listing :: listing_page where
  "sample_listing =
     \<lparr>get_listing = Inr (),
      cookie_button = Inl (Exn ''TimeoutException'' []),
      html_lang = Inr (Inr (Some ''es-ES'')),
      article_elems = Inr [Inr (Inr (Some ''https://elpais.com/opinion/a'')),
                           Inl (Exn ''NoSuchElementException'' ''h2 a''),
                           Inr (Inr (Some ''https://elpais.com/opinion/a'')),
                           Inr (Inr (Some ''https://elpais.com/opinion/b''))],
      h2_links = Inr [Inr (Some ''https://elpais.com/opinion/a''),
                      Inr (Some ''https://elpais.com/opinion/c''),
                      Inr None]\<rparr>"


text \<open>
  Image downloads: one that succeeds with a PNG, one whose request fails, and one where
  the image directory cannot be created.
\<close>

definition png_fetch :: image_fetch where
  "png_fetch =
     \<lparr>makedirs = Inr (),
      http_get = Inr \<lparr>raise_for_status = Inr (), content_type = Some ''image/png'',
                      save_body = (\<lambda>path. Inr ())\<rparr>\<rparr>"



text \<open>
  An article page that has only a generic top-level heading, two paragraphs and a cover
  image that downloads; and one whose structured header heading is there with blank text
  while the class-based heading carries the title.
\<close>

definition sample_page :: article_page where
  "sample_page =
     \<lparr>get_page = Inr (),
      header_h1 = Inl (Exn ''TimeoutException'' []),
      h1_a_t = Inl (Exn ''NoSuchElementException'' ''h1.a_t''),
      any_h1 = Inr (Inr '' El gato corre ''),
      body_paragraphs = Inr [],
      article_paragraphs = Inr [Inr ''Uno. '', Inr ''  '', Inr ''Dos.''],
      cover_img = Inr (Inr (Some ''https://img.example/cover'')),
      fetch = (\<lambda>u. png_fetch)\<rparr>"

definition blank_header_page :: article_page where
  "blank_header_page =
     sample_page\<lparr>header_h1 := Inr (Inr ''  ''), h1_a_t := Inr (Inr ''El gato corre'')\<rparr>"

text \<open>
  A driver on the sample listing whose article pages are all the sample page, a driver
  on a listing without any link, and the same two with a \<open>quit\<close> or an \<open>execute_script\<close>
  that raises.
\<close>

definition sample_driver :: driver where
  "sample_driver =
     \<lparr>listing = sample_listing,
      pages = (\<lambda>i u. sample_page),
      execute_script = (\<lambda>script. Inr ()),
      quit = Inr ()\<rparr>"


definition unquittable_driver :: driver where
  "unquittable_driver = sample_driver\<lparr>quit := Inl (Exn ''WebDriverException'' ''session lost'')\<rparr>"

definition mute_driver :: driver where
  "mute_driver =
     sample_driver\<lparr>execute_script := (\<lambda>script. Inl (Exn ''WebDriverException'' ''script refused''))\<rparr>"

text \<open>
  A translation endpoint that translates the first title, answers the second with an
  error status, the third with a body that has no \<open>trans\<close> field, and is unreachable
  afterwards.
\<close>

definition sample_post :: "nat \<Rightarrow> request_body \<Rightarrow> response" where
  "sample_post i body =
     (if i = 0 then JsonObject [''trans'' \<mapsto> Str ''The cat runs'']
      else if i = 1 then HTTPError (Exn ''HTTPError'' ''429 Too Many Requests'')
      else if i = 2 then JsonObject Map.empty
      else PostRaised (Exn ''ConnectionError'' ''unreachable''))"

text \<open>
  A standard output with the encoding ASCII: a line with a code point above 127 raises a
  \<open>UnicodeEncodeError\<close>. And an endpoint whose translation has an accented letter, U+00E1.
\<close>

definition ascii_stdout :: "string \<Rightarrow> exn + unit" where
  "ascii_stdout line =
     (if list_all (\<lambda>c. (of_char c :: nat) < 128) line then Inr ()
      else Inl (Exn ''UnicodeEncodeError'' ''ordinal not in range(128)''))"

definition accent_post :: "nat \<Rightarrow> request_body \<Rightarrow> response" where
  "accent_post i body = JsonObject [''trans'' \<mapsto> Str (''Ol'' @ [CHR 0xE1])]"


definition sample_settings :: settings where
  "sample_settings =
     \<lparr>bs_user = ''user'', bs_key = ''key'', rapidapi_key = ''rapid'', image_dir = ''/app/images''\<rparr>"

definition sample_world :: "driver \<Rightarrow> world" where
  "sample_world drv = \<lparr>remote = (\<lambda>payload. Inr drv), post = sample_post\<rparr>"

definition hubless_world :: world where
  "hubless_world =
     \<lparr>remote = (\<lambda>payload. Inl (Exn ''SessionNotCreatedException'' ''bad credentials'')),
      post = sample_post\<rparr>"

text \<open>
  The world \<open>w\<close> with the outcome of \<open>execute_script\<close> replaced by \<open>f\<close> in every driver
  the hub hands out.
\<close>

definition with_script :: "(string \<Rightarrow> exn + unit) \<Rightarrow> world \<Rightarrow> world" where
  "with_script f w = w\<lparr>remote := (\<lambda>payload. map_sum id (\<lambda>drv. drv\<lparr>execute_script := f\<rparr>) (remote w payload))\<rparr>"





text \<open>The words of one header, before stop-words and short tokens are discarded.\<close>

definition tokens :: "string \<Rightarrow> string list" where
  "tokens h = split (clean (lower h))"

section \<open>Properties of the analyzer\<close>


lemma map_of_counter_add:
  "map_of (counter_add kvs w) =
     (map_of kvs)(w \<mapsto> (case map_of kvs w of None \<Rightarrow> 1 | Some n \<Rightarrow> n + 1))"
  by (induction kvs w rule: counter_add.induct) (auto simp: fun_eq_iff)

lemma keys_counter_add: "set (map fst (counter_add kvs w)) = insert w (set (map fst kvs))"
  by (induction kvs w rule: counter_add.induct) auto

lemma distinct_counter_add:
  "distinct (map fst kvs) \<Longrightarrow> distinct (map fst (counter_add kvs w))"
proof (induction kvs w rule: counter_add.induct)
  case (1 w)
  then show ?case by simp
next
  case (2 k n kvs w)
  then show ?case
    using keys_counter_add [of kvs w] by auto
qed

lemma distinct_foldl_counter_add:
  "distinct (map fst kvs) \<Longrightarrow> distinct (map fst (foldl counter_add kvs ws))"
  by (induction ws arbitrary: kvs) (simp_all add: distinct_counter_add)

lemma map_of_foldl_counter_add:
  "map_of (foldl counter_add kvs ws) w =
     (case map_of kvs w of
        None \<Rightarrow> if count_list ws w = 0 then None else Some (count_list ws w)
      | Some n \<Rightarrow> Some (n + count_list ws w))"
  by (induction ws arbitrary: kvs) (auto simp: map_of_counter_add split: option.splits)

lemma map_of_Counter:
  "map_of (Counter ws) w = (if count_list ws w = 0 then None else Some (count_list ws w))"
  by (simp add: Counter_def map_of_foldl_counter_add)

lemma distinct_Counter: "distinct (map fst (Counter ws))"
  by (simp add: Counter_def distinct_foldl_counter_add)

lemma map_of_filter_snd:
  "distinct (map fst kvs) \<Longrightarrow>
   map_of (filter (\<lambda>(k, v). P v) kvs) w =
     (case map_of kvs w of None \<Rightarrow> None | Some v \<Rightarrow> if P v then Some v else None)"
proof (induction kvs)
  case Nil
  then show ?case by simp
next
  case (Cons kv kvs)
  obtain k v where kv: "kv = (k, v)" by (cases kv)
  from Cons.prems kv have "map_of kvs k = None"
    by (simp add: map_of_eq_None_iff)
  with Cons kv show ?case by (auto split: option.splits)
qed

lemma split_from_nonempty: "t \<in> set (split_from cur s) \<Longrightarrow> t \<noteq> []"
  by (induction cur s rule: split_from.induct) (auto split: if_splits)

lemma meaningful_words_spec: "meaningful_words headers = spec_tokens headers"
proof -
  have "\<And>t. t \<in> set (split s) \<Longrightarrow> (1 < length t) = (length t \<noteq> 1)" for s
    using split_from_nonempty [of _ "[]" s] by (auto simp: split_def Suc_lessI)
  then show ?thesis
    unfolding meaningful_words_def spec_tokens_def clean_def lower_def
    by (intro filter_cong refl) simp
qed

lemma distinct_find_repeated_words: "distinct (map fst (find_repeated_words headers))"
  unfolding find_repeated_words_def Let_def
  by (rule distinct_map_filter) (rule distinct_Counter)

lemma split_from_sep:
  "isspace c \<Longrightarrow> split_from cur (a @ c # b) = split_from cur a @ split_from [] b"
  by (induction cur a rule: split_from.induct) auto


lemma isspace_space: "isspace CHR '' ''"
  by (simp add: isspace_def)

lemma lower_space: "lower_char CHR '' '' = CHR '' ''"
  by (simp add: lower_char_def)

lemma tokens_join: "tokens (join '' '' hs) = concat (map tokens hs)"
proof (induction "'' ''" hs rule: join.induct)
  case 1
  then show ?case by (simp add: tokens_def split_def clean_def lower_def)
next
  case (2 x)
  then show ?case by simp
next
  case (3 x y ys)
  have "tokens (join '' '' (x # y # ys)) = split (clean (lower x) @ CHR '' '' # clean (lower (join '' '' (y # ys))))"
    by (simp add: tokens_def clean_def lower_def lower_space isspace_space)
  also have "\<dots> = tokens x @ tokens (join '' '' (y # ys))"
    by (simp add: split_def tokens_def split_from_sep isspace_space)
  finally show ?case using 3 by simp
qed

lemma mset_meaningful_words:
  "mset hs = mset hs' \<Longrightarrow> mset (meaningful_words hs) = mset (meaningful_words hs')"
proof -
  assume eq: "mset hs = mset hs'"
  have "mset (concat (map tokens hs)) = mset (concat (map tokens hs'))"
  proof -
    have "mset (concat (map tokens xs)) = sum_mset (image_mset (\<lambda>h. mset (tokens h)) (mset xs))" for xs
      by (induction xs) simp_all
    with eq show ?thesis by simp
  qed
  moreover have "meaningful_words xs =
      filter (\<lambda>w. w \<notin> set STOP_WORDS \<and> length w > 1) (concat (map tokens xs))" for xs
    using tokens_join [of xs] by (simp add: meaningful_words_def tokens_def)
  ultimately show ?thesis by (simp only: mset_filter)
qed

text \<open>
  C2. For every list of headers and every word \<open>w\<close>: \<open>w\<close> is a key of the dictionary
  that \<open>find_repeated_words\<close> returns if and only if, after lowercasing the joined headers,
  deleting every character outside the basic Latin letters and whitespace, splitting on
  whitespace and discarding the stop-words and the tokens of length 1, \<open>w\<close> occurs more
  than twice among the remaining tokens; the value stored for \<open>w\<close> is that count, and no
  key is stored twice. For the titles \<open>The cat runs\<close>, \<open>The cat eats\<close>, \<open>The dog runs\<close>,
  where \<open>cat\<close> and \<open>runs\<close> occur exactly twice, the result is empty.
\<close>

theorem find_repeated_words_threshold:
  "(w \<in> fst ` set (find_repeated_words headers)) = (2 < spec_count headers w)
   \<and> map_of (find_repeated_words headers) w =
       (if 2 < spec_count headers w then Some (spec_count headers w) else None)
   \<and> distinct (map fst (find_repeated_words headers))
   \<and> find_repeated_words [''The cat runs'', ''The cat eats'', ''The dog runs''] = []"
proof -
  have m: "map_of (find_repeated_words headers) w =
      (if 2 < spec_count headers w then Some (spec_count headers w) else None)"
    by (simp add: find_repeated_words_def map_of_filter_snd distinct_Counter map_of_Counter
        meaningful_words_spec spec_count_def)
  have "(w \<in> fst ` set (find_repeated_words headers)) = (map_of (find_repeated_words headers) w \<noteq> None)"
    by (simp add: map_of_eq_None_iff)
  with m have k: "(w \<in> fst ` set (find_repeated_words headers)) = (2 < spec_count headers w)"
    by simp
  have e: "find_repeated_words [''The cat runs'', ''The cat eats'', ''The dog runs''] = []"
    by code_simp
  from k m distinct_find_repeated_words e show ?thesis by blast
qed

theorem find_repeated_words_threshold_witness:
  "spec_count [''Election day!'', ''the ELECTION'', ''election, election'', ''x y election''] ''election'' = 5
   \<and> map_of (find_repeated_words [''Election day!'', ''the ELECTION'', ''election, election'', ''x y election''])
        ''election'' = Some 5"
proof -
  have c: "spec_count [''Election day!'', ''the ELECTION'', ''election, election'', ''x y election''] ''election'' = 5"
    by code_simp
  show ?thesis
    using find_repeated_words_threshold
      [of "''election''" "[''Election day!'', ''the ELECTION'', ''election, election'', ''x y election'']"] c
    by simp
qed

text \<open>
  C9. \<open>find_repeated_words\<close> is insensitive to the order of its input: two lists holding the
  same multiset of headers give the same word-frequency dictionary (the same keys with the
  same counts).
\<close>

theorem find_repeated_words_order_insensitive:
  "mset hs = mset hs' \<Longrightarrow> map_of (find_repeated_words hs) = map_of (find_repeated_words hs')"
proof
  fix w
  assume "mset hs = mset hs'"
  then have "mset (meaningful_words hs) = mset (meaningful_words hs')"
    by (rule mset_meaningful_words)
  then have "count_list (meaningful_words hs) w = count_list (meaningful_words hs') w"
    by (metis count_mset)
  then show "map_of (find_repeated_words hs) w = map_of (find_repeated_words hs') w"
    by (simp add: find_repeated_words_def map_of_filter_snd distinct_Counter map_of_Counter)
qed

theorem find_repeated_words_order_insensitive_witness:
  "mset [''Vote vote'', ''the VOTE now'', ''a vote''] = mset [''a vote'', ''Vote vote'', ''the VOTE now'']
   \<and> map_of (find_repeated_words [''Vote vote'', ''the VOTE now'', ''a vote''])
     = map_of (find_repeated_words [''a vote'', ''Vote vote'', ''the VOTE now''])
   \<and> find_repeated_words [''Vote vote'', ''the VOTE now'', ''a vote''] = [(''vote'', 4)]"
proof -
  have p: "mset [''Vote vote'', ''the VOTE now'', ''a vote''] = mset [''a vote'', ''Vote vote'', ''the VOTE now'']"
    by simp
  have v: "find_repeated_words [''Vote vote'', ''the VOTE now'', ''a vote''] = [(''vote'', 4)]"
    by code_simp
  from p v find_repeated_words_order_insensitive [OF p] show ?thesis by simp
qed

section \<open>Properties of the translator\<close>

lemma translate_loop_length:
  "length (translate_loop api src dest i titles translated) = length translated + length titles"
  by (induction titles arbitrary: i translated) simp_all

lemma translate_loop_prefix:
  "j < length translated \<Longrightarrow>
   translate_loop api src dest i titles translated ! j = translated ! j"
  by (induction titles arbitrary: i translated) (simp_all add: nth_append)

lemma translate_loop_nth:
  "k < length titles \<Longrightarrow>
   translate_loop api src dest i titles translated ! (length translated + k) =
     translate_one api src dest (i + k) (titles ! k)"
proof (induction titles arbitrary: i k translated)
  case Nil
  then show ?case by simp
next
  case (Cons t ts)
  show ?case
  proof (cases k)
    case 0
    then show ?thesis by (simp add: translate_loop_prefix)
  next
    case (Suc k')
    with Cons.prems have "k' < length ts" by simp
    from Cons.IH [OF this, of "Suc i" "translated @ [translate_one api src dest i t]"] Suc
    show ?thesis by simp
  qed
qed

text \<open>
  On a standard output that takes every line, each title gives one entry, in order: the
  \<open>trans\<close> field of the answer, or the title itself when the request raised, the status was
  an error, the body could not be read or it has no \<open>trans\<close> field; with no API key the
  titles are returned.
\<close>

lemma translate_titles_positions:
  "length (translate_titles key api titles src dest) = length titles
   \<and> (\<forall>i < length titles.
        translate_titles key api titles src dest ! i =
          (if key = [] then Str (titles ! i)
           else case api i \<lparr>req_from = src, req_to = dest, req_text = titles ! i\<rparr> of
                  JsonObject result \<Rightarrow> (case result ''trans'' of None \<Rightarrow> Str (titles ! i) | Some t \<Rightarrow> t)
                | _ \<Rightarrow> Str (titles ! i)))
   \<and> (key = [] \<longrightarrow> translate_titles key api titles src dest = map Str titles)"
proof -
  have "translate_titles key api titles src dest ! i =
          (if key = [] then Str (titles ! i)
           else case api i \<lparr>req_from = src, req_to = dest, req_text = titles ! i\<rparr> of
                  JsonObject result \<Rightarrow> (case result ''trans'' of None \<Rightarrow> Str (titles ! i) | Some t \<Rightarrow> t)
                | _ \<Rightarrow> Str (titles ! i))" if "i < length titles" for i
    using translate_loop_nth [OF that, of api src dest 0 "[]"] that
    by (simp add: translate_titles_def translate_one_def split: response.splits)
  then show ?thesis
    by (simp add: translate_titles_def translate_loop_length)
qed

lemma handler_quiet:
  "(\<And>line. stdout line = Inr ()) \<Longrightarrow> handler stdout t e translated = Inr (translated @ [Str t])"
  by (simp add: handler_def)

lemma translate_one_io_quiet:
  "(\<And>line. stdout line = Inr ()) \<Longrightarrow>
   translate_one_io stdout api src dest i t translated =
     Inr (translated @ [translate_one api src dest i t])"
  by (simp add: translate_one_io_def translate_one_def handler_quiet Let_def
      split: response.splits)

lemma translate_loop_io_quiet:
  "(\<And>line. stdout line = Inr ()) \<Longrightarrow>
   translate_loop_io stdout api src dest i titles translated =
     Inr (translate_loop api src dest i titles translated)"
  by (induction titles arbitrary: i translated) (simp_all add: translate_one_io_quiet)

lemma translate_titles_io_quiet:
  "(\<And>line. stdout line = Inr ()) \<Longrightarrow>
   translate_titles_io stdout key api titles src dest =
     Inr (translate_titles key api titles src dest)"
  by (simp add: translate_titles_io_def translate_titles_def translate_loop_io_quiet)

text \<open>
  C10. \<open>translate_titles\<close> is to return one entry per title, the translation or the title
  itself. The source appends \<open>eng_title\<close> and prints afterwards inside the same \<open>try\<close>,
  whose handler appends the title: on a standard output that cannot encode the
  translation (\<open>Ol\<close> followed by U+00E1), the one title \<open>Hola\<close> gives two entries, the
  translation and the title. When the title itself cannot be encoded, the \<open>print\<close> of the
  handler raises as well and the function raises instead of returning.
\<close>

theorem translate_titles_doubled_entry:
  "translate_titles_io ascii_stdout ''rapid'' accent_post [''Hola''] ''es'' ''en''
     = Inr [Str (''Ol'' @ [CHR 0xE1]), Str ''Hola'']
   \<and> length [Str (''Ol'' @ [CHR 0xE1]), Str ''Hola''] = 2
   \<and> length [''Hola''] = 1
   \<and> translate_titles_io ascii_stdout ''rapid'' accent_post [''Adi'' @ [CHR 0xF3] @ ''s''] ''es'' ''en''
     = Inl (Exn ''UnicodeEncodeError'' ''ordinal not in range(128)'')"
  by code_simp

section \<open>Properties of the scraper\<close>


lemma primary_loop_step:
  "primary_loop n (art # arts) links = primary_loop n arts links
   \<or> (\<exists>x. art = Inr (Inr (Some x)) \<and> x \<noteq> [] \<and> x \<notin> set links
          \<and> (primary_loop n (art # arts) links = links @ [x]
               \<or> primary_loop n (art # arts) links = primary_loop n arts (links @ [x])))"
  by (simp split: sum.splits option.splits)

lemma primary_loop_extends:
  "\<exists>extra. primary_loop n arts links = links @ extra"
proof (induction arts arbitrary: links)
  case Nil
  then show ?case by simp
next
  case (Cons art arts)
  have "\<exists>extra. primary_loop n arts (links @ [x]) = links @ extra" for x
    using Cons [of "links @ [x]"] by auto
  with Cons [of links] primary_loop_step [of n art arts links] show ?case
    by fastforce
qed
















lemma fallback_links_unused:
  "n \<le> int (length links) \<Longrightarrow> fallback_links page n links = links"
  by (simp add: fallback_links_def)






lemma title_strategy_None:
  "(title_strategy lookup = None) = (\<forall>txt. lookup \<noteq> Inr (Inr txt))"
  by (auto simp: title_strategy_def split: sum.splits)

lemma title_strategy_Some:
  "lookup = Inr (Inr txt) \<Longrightarrow> title_strategy lookup = Some (strip txt)"
  by (simp add: title_strategy_def)

lemma scrape_single_article_returns:
  "scrape_single_article dir page u idx = Inr a \<Longrightarrow>
     a = \<lparr>url = u, title = extract_title page, content = extract_content page,
          image_path = extract_image dir page idx\<rparr>"
  by (simp add: scrape_single_article_def split: sum.splits)

text \<open>
  C3, as the code has it. The title is taken by three selector strategies, the most
  specific first: the structured header heading, the class-based heading, any \<open>h1\<close>. A
  strategy fails when its lookup or the read of the element's text raises. The first
  strategy that does not fail gives the title, its stripped text, which may be empty; when
  all three fail the title is the sentinel \<open>(could not extract title)\<close>. A title is always
  a string.
\<close>

theorem scrape_single_article_title:
  "scrape_single_article dir page u idx = Inr a \<Longrightarrow>
     (\<forall>txt. header_h1 page = Inr (Inr txt) \<longrightarrow> title a = strip txt)
   \<and> (\<forall>txt. title_strategy (header_h1 page) = None \<and> h1_a_t page = Inr (Inr txt)
          \<longrightarrow> title a = strip txt)
   \<and> (\<forall>txt. title_strategy (header_h1 page) = None \<and> title_strategy (h1_a_t page) = None
            \<and> any_h1 page = Inr (Inr txt)
          \<longrightarrow> title a = strip txt)
   \<and> (title_strategy (header_h1 page) = None \<and> title_strategy (h1_a_t page) = None
        \<and> title_strategy (any_h1 page) = None
          \<longrightarrow> title a = ''(could not extract title)'')
   \<and> (\<forall>lookup. (title_strategy lookup = None) = (\<forall>txt. lookup \<noteq> Inr (Inr txt)))"
proof -
  assume "scrape_single_article dir page u idx = Inr a"
  then have "a = \<lparr>url = u, title = extract_title page, content = extract_content page,
          image_path = extract_image dir page idx\<rparr>"
    by (rule scrape_single_article_returns)
  then have t: "title a = extract_title page"
    by simp
  show ?thesis
    unfolding t extract_title_def
    by (simp add: title_strategy_Some title_strategy_None [symmetric])
qed

theorem scrape_single_article_title_witness:
  "scrape_single_article ''/app/images'' sample_page ''https://elpais.com/opinion/a'' 0 =
     Inr \<lparr>url = ''https://elpais.com/opinion/a'', title = ''El gato corre'',
          content = ''Uno.'' @ [CHR 0x0A] @ ''Dos.'',
          image_path = Some ''/app/images/article_1_cover.png''\<rparr>
   \<and> title_strategy (header_h1 sample_page) = None
   \<and> title_strategy (h1_a_t sample_page) = None
   \<and> any_h1 sample_page = Inr (Inr '' El gato corre '')
   \<and> strip '' El gato corre '' = ''El gato corre''"
proof -
  have r: "scrape_single_article ''/app/images'' sample_page ''https://elpais.com/opinion/a'' 0 =
     Inr \<lparr>url = ''https://elpais.com/opinion/a'', title = ''El gato corre'',
          content = ''Uno.'' @ [CHR 0x0A] @ ''Dos.'',
          image_path = Some ''/app/images/article_1_cover.png''\<rparr>"
    by code_simp
  have s: "strip '' El gato corre '' = ''El gato corre''"
    by code_simp
  from scrape_single_article_title [OF r] s r show ?thesis
    by (simp add: sample_page_def title_strategy_def)
qed

text \<open>
  The specification lets the first strategy with non-empty text win, so that a title is
  never empty. On a page whose structured header heading is there with blank text, the
  title is the empty string although the class-based heading carries a title.
\<close>

theorem blank_header_title_counterexample:
  "scrape_single_article ''/app/images'' blank_header_page ''https://elpais.com/opinion/a'' 0 =
     Inr \<lparr>url = ''https://elpais.com/opinion/a'', title = [],
          content = ''Uno.'' @ [CHR 0x0A] @ ''Dos.'',
          image_path = Some ''/app/images/article_1_cover.png''\<rparr>
   \<and> h1_a_t blank_header_page = Inr (Inr ''El gato corre'')"
  by code_simp




section \<open>Properties of the runner\<close>

text \<open>
  C8. The capability payload that \<open>create_driver\<close> builds branches on \<open>is_mobile\<close>: for a
  mobile descriptor it holds the common fields, \<open>deviceName\<close> and \<open>osVersion\<close>, and none of
  \<open>browserVersion\<close>, \<open>os\<close> or \<open>platform\<close>; for a desktop descriptor it holds the common
  fields, \<open>os\<close>, \<open>osVersion\<close> and \<open>browserVersion\<close>, and no \<open>deviceName\<close>.
\<close>

theorem create_driver_options_fields:
  "create_driver_options env cfg = Inr (options, caps) \<Longrightarrow>
     (is_mobile cfg \<longrightarrow>
        caps ''browserVersion'' = None \<and> caps ''os'' = None \<and> caps ''platform'' = None
        \<and> dom caps = {''userName'', ''accessKey'', ''sessionName'', ''buildName'',
                       ''deviceName'', ''osVersion''})
   \<and> (\<not> is_mobile cfg \<longrightarrow>
        caps ''deviceName'' = None
        \<and> dom caps = {''userName'', ''accessKey'', ''sessionName'', ''buildName'',
                       ''os'', ''osVersion'', ''browserVersion''})"
proof (cases "is_mobile cfg")
  case True
  assume "create_driver_options env cfg = Inr (options, caps)"
  with True obtain device version where
    "caps = [''userName'' \<mapsto> bs_user env, ''accessKey'' \<mapsto> bs_key env,
             ''sessionName'' \<mapsto> dict_get (bstack_options cfg) ''sessionName'' [],
             ''buildName'' \<mapsto> dict_get (bstack_options cfg) ''buildName'' [],
             ''deviceName'' \<mapsto> device, ''osVersion'' \<mapsto> version]"
    by (auto simp: create_driver_options_def Let_def split: option.splits)
  with True show ?thesis by auto
next
  case False
  assume "create_driver_options env cfg = Inr (options, caps)"
  with False have
    "caps = [''userName'' \<mapsto> bs_user env, ''accessKey'' \<mapsto> bs_key env,
             ''sessionName'' \<mapsto> dict_get (bstack_options cfg) ''sessionName'' [],
             ''buildName'' \<mapsto> dict_get (bstack_options cfg) ''buildName'' [],
             ''os'' \<mapsto> dict_get (bstack_options cfg) ''os'' [],
             ''osVersion'' \<mapsto> dict_get (bstack_options cfg) ''osVersion'' [],
             ''browserVersion'' \<mapsto> dict_get (bstack_options cfg) ''browserVersion'' ''latest'']"
    by (auto simp: create_driver_options_def Let_def)
  with False show ?thesis by auto
qed

theorem create_driver_options_fields_witness:
  "is_mobile (BROWSERS ! 4)
   \<and> \<not> is_mobile (BROWSERS ! 0)
   \<and> map_sum id (\<lambda>(options, caps). (options, caps ''deviceName'', caps ''browserVersion'', caps ''os''))
         (create_driver_options sample_settings (BROWSERS ! 4))
       = Inr (SafariOptions, Some ''iPhone 15'', None, None)
   \<and> map_sum id (\<lambda>(options, caps). (options, caps ''deviceName'', caps ''browserVersion'', caps ''os''))
         (create_driver_options sample_settings (BROWSERS ! 0))
       = Inr (ChromeOptions, None, Some ''latest'', Some ''Windows'')"
proof -
  have m: "is_mobile (BROWSERS ! 4)" and d: "\<not> is_mobile (BROWSERS ! 0)"
    by (simp_all add: BROWSERS_def)
  obtain caps where c: "create_driver_options sample_settings (BROWSERS ! 4) = Inr (SafariOptions, caps)"
    and dev: "caps ''deviceName'' = Some ''iPhone 15''"
    by (simp add: create_driver_options_def BROWSERS_def dict_get_def)
  obtain caps' where c': "create_driver_options sample_settings (BROWSERS ! 0) = Inr (ChromeOptions, caps')"
    and ver: "caps' ''browserVersion'' = Some ''latest''" and os: "caps' ''os'' = Some ''Windows''"
    by (simp add: create_driver_options_def BROWSERS_def dict_get_def)
  from create_driver_options_fields [OF c] m have "caps ''browserVersion'' = None \<and> caps ''os'' = None"
    by simp
  moreover from create_driver_options_fields [OF c'] d have "caps' ''deviceName'' = None"
    by simp
  ultimately show ?thesis using m d c c' dev ver os by simp
qed

lemma scrape_loop_script:
  "scrape_loop dir (drv\<lparr>execute_script := f\<rparr>) i us results = scrape_loop dir drv i us results"
  by (induction us arbitrary: i results) (simp_all split: sum.splits)

lemma scrape_articles_script:
  "scrape_articles dir (drv\<lparr>execute_script := f\<rparr>) n = scrape_articles dir drv n"
  by (simp add: scrape_articles_def scrape_loop_script split: sum.splits)

lemma create_driver_with_script:
  "create_driver env (with_script f w) cfg =
     map_sum id (\<lambda>drv. drv\<lparr>execute_script := f\<rparr>) (create_driver env w cfg)"
  by (simp add: create_driver_def with_script_def split: sum.splits)

lemma run_pipeline_with_script:
  "run_pipeline env (with_script f w) cfg =
     (case run_pipeline env w cfg of
        (d, st, rsn, calls) \<Rightarrow> (map_option (\<lambda>drv. drv\<lparr>execute_script := f\<rparr>) d, st, rsn, calls))"
proof (cases "create_driver env w cfg")
  case (Inl e)
  then show ?thesis
    by (simp add: run_pipeline_def create_driver_with_script)
next
  case (Inr drv)
  have p: "post (with_script f w) = post w"
    by (simp add: with_script_def)
  show ?thesis
    by (simp add: run_pipeline_def create_driver_with_script Inr scrape_articles_script p Let_def
        split: sum.splits)
qed

lemma run_pipeline_calls:
  "run_pipeline env w cfg = (d, st, rsn, calls) \<Longrightarrow> Quit \<notin> set calls"
  by (auto simp: run_pipeline_def Let_def split: sum.splits if_splits)

lemma run_pipeline_driver:
  "run_pipeline env w cfg = (d, st, rsn, calls) \<Longrightarrow>
     d = (case create_driver env w cfg of Inl e \<Rightarrow> None | Inr drv \<Rightarrow> Some drv)"
  by (auto simp: run_pipeline_def Let_def split: sum.splits if_splits)

text \<open>
  C5. Whenever \<open>create_driver\<close> has given a driver, the calls of \<open>run_single_browser\<close> end
  with the status script and then \<open>quit\<close>, which is called exactly once, whatever the
  scraping, the translation and the script did; the function then returns the status and
  reason the pipeline left, or raises what \<open>quit\<close> raised. With no driver, \<open>quit\<close> is not
  called. The outcome of \<open>execute_script\<close> changes neither the calls nor the result.
\<close>

theorem run_single_browser_quits_once:
  "(create_driver env w cfg = Inr drv \<longrightarrow>
      count_list (fst (run_single_browser env w cfg)) Quit = 1
      \<and> (\<exists>calls st rsn.
            fst (run_single_browser env w cfg) = calls @ [Execute_script (status_script st rsn), Quit]
            \<and> snd (run_single_browser env w cfg) =
                (case quit drv of
                   Inl e \<Rightarrow> Inl e
                 | Inr u \<Rightarrow> Inr \<lparr>browser = name cfg, status = st, reason = rsn\<rparr>)))
   \<and> (create_driver env w cfg = Inl e \<longrightarrow> count_list (fst (run_single_browser env w cfg)) Quit = 0)
   \<and> run_single_browser env (with_script f w) cfg = run_single_browser env w cfg"
proof -
  obtain d st rsn calls where p: "run_pipeline env w cfg = (d, st, rsn, calls)"
    by (cases "run_pipeline env w cfg") auto
  note d = run_pipeline_driver [OF p]
  from run_pipeline_calls [OF p] have q: "count_list calls Quit = 0"
    by (simp add: count_list_0_iff)
  have created: "count_list (fst (run_single_browser env w cfg)) Quit = 1
      \<and> (\<exists>calls st rsn.
            fst (run_single_browser env w cfg) = calls @ [Execute_script (status_script st rsn), Quit]
            \<and> snd (run_single_browser env w cfg) =
                (case quit drv of
                   Inl e \<Rightarrow> Inl e
                 | Inr u \<Rightarrow> Inr \<lparr>browser = name cfg, status = st, reason = rsn\<rparr>))"
    if "create_driver env w cfg = Inr drv"
    using that p d q by (cases "quit drv") (auto simp: run_single_browser_def)
  have failed: "count_list (fst (run_single_browser env w cfg)) Quit = 0"
    if "create_driver env w cfg = Inl e"
    using that p d q by (simp add: run_single_browser_def)
  have same: "run_single_browser env (with_script f w) cfg = run_single_browser env w cfg"
    by (cases d) (simp_all add: run_single_browser_def run_pipeline_with_script p)
  from created failed same show ?thesis by blast
qed

theorem run_single_browser_quits_once_witness:
  "create_driver sample_settings (sample_world unquittable_driver) (BROWSERS ! 0) = Inr unquittable_driver
   \<and> count_list (fst (run_single_browser sample_settings (sample_world unquittable_driver) (BROWSERS ! 0))) Quit = 1
   \<and> snd (run_single_browser sample_settings (sample_world unquittable_driver) (BROWSERS ! 0))
       = Inl (Exn ''WebDriverException'' ''session lost'')
   \<and> create_driver sample_settings hubless_world (BROWSERS ! 0)
       = Inl (Exn ''SessionNotCreatedException'' ''bad credentials'')
   \<and> count_list (fst (run_single_browser sample_settings hubless_world (BROWSERS ! 0))) Quit = 0
   \<and> run_single_browser sample_settings
         (with_script (\<lambda>script. Inl (Exn ''WebDriverException'' ''script refused'')) (sample_world sample_driver))
         (BROWSERS ! 0)
       = run_single_browser sample_settings (sample_world sample_driver) (BROWSERS ! 0)
   \<and> snd (run_single_browser sample_settings (sample_world sample_driver) (BROWSERS ! 0))
       = Inr \<lparr>browser = ''Chrome on Windows 11'', status = ''passed'',
              reason = ''Scraped 3 articles successfully''\<rparr>"
proof -
  have c: "create_driver sample_settings (sample_world unquittable_driver) (BROWSERS ! 0) = Inr unquittable_driver"
    by (simp add: create_driver_def create_driver_options_def BROWSERS_def sample_world_def Let_def)
  have h: "create_driver sample_settings hubless_world (BROWSERS ! 0)
       = Inl (Exn ''SessionNotCreatedException'' ''bad credentials'')"
    by (simp add: create_driver_def create_driver_options_def BROWSERS_def hubless_world_def Let_def)
  have q: "snd (run_single_browser sample_settings (sample_world unquittable_driver) (BROWSERS ! 0))
       = Inl (Exn ''WebDriverException'' ''session lost'')"
    by code_simp
  have r: "snd (run_single_browser sample_settings (sample_world sample_driver) (BROWSERS ! 0))
       = Inr \<lparr>browser = ''Chrome on Windows 11'', status = ''passed'',
              reason = ''Scraped 3 articles successfully''\<rparr>"
    by code_simp
  note a = run_single_browser_quits_once
    [where env = sample_settings and w = "sample_world unquittable_driver" and cfg = "BROWSERS ! 0"
       and drv = unquittable_driver]
  note b = run_single_browser_quits_once
    [where env = sample_settings and w = hubless_world and cfg = "BROWSERS ! 0"
       and e = "Exn ''SessionNotCreatedException'' ''bad credentials''"]
  note s = run_single_browser_quits_once
    [where env = sample_settings and w = "sample_world sample_driver" and cfg = "BROWSERS ! 0"
       and f = "\<lambda>script. Inl (Exn ''WebDriverException'' ''script refused'')"]
  from a c have "count_list (fst (run_single_browser sample_settings (sample_world unquittable_driver) (BROWSERS ! 0))) Quit = 1"
    by blast
  moreover from b h have "count_list (fst (run_single_browser sample_settings hubless_world (BROWSERS ! 0))) Quit = 0"
    by blast
  moreover from s have "run_single_browser sample_settings
         (with_script (\<lambda>script. Inl (Exn ''WebDriverException'' ''script refused'')) (sample_world sample_driver))
         (BROWSERS ! 0)
       = run_single_browser sample_settings (sample_world sample_driver) (BROWSERS ! 0)"
    by blast
  ultimately show ?thesis using c h q r by blast
qed


lemma str_items_Str: "str_items i (map Str hs) = Inr hs"
  by (induction hs arbitrary: i) simp_all








end
